theory Spec2Isabelle
  imports Main "HOL-Library.AList"
begin

section \<open>Data model of \<open>offset.core.kernel\<close>\<close>

text \<open>
  A \<open>Proc\<close> object and a \<open>Future\<close> object are known to the kernel by identity only, so
  both are numbers here. The attributes \<open>g.sleeping\<close> and \<open>g.is_alive()\<close> of the
  \<open>Proc\<close> objects live in the state, next to the fields of the \<open>Kernel\<close> instance.
  \<open>proc.current()\<close> is a parameter (\<open>gcurrent\<close>, \<open>gt\<close>) of every operation that reads
  it.
\<close>

type_synonym task = nat
type_synonym future = nat
type_synonym signum = int

datatype pyerror =
    KernelError string
  | IndexError
  | KeyError
  | CancelledError
  | NameError string
  | OSError int
  | WorkerError nat

record kernel =
  runq :: "task list"                  \<comment> \<open>\<open>self.runq\<close>, a deque; head first\<close>
  sleeping :: "(future \<times> task) list"    \<comment> \<open>\<open>self.sleeping\<close>, a dict\<close>
  run_calls :: "task list"             \<comment> \<open>\<open>self._run_calls\<close>, a list used as a stack\<close>
  last_task :: task                    \<comment> \<open>\<open>self._last_task\<close>\<close>
  SIGQUEUE :: "signum list"            \<comment> \<open>\<open>Kernel.SIGQUEUE\<close>\<close>
  SIGNAMES :: "signum \<Rightarrow> string option" \<comment> \<open>\<open>Kernel.SIGNAMES\<close>, built from the platform's signal module\<close>
  proc_sleeping :: "task \<Rightarrow> bool"      \<comment> \<open>\<open>g.sleeping\<close>\<close>
  proc_alive :: "task \<Rightarrow> bool"         \<comment> \<open>\<open>g.is_alive()\<close>\<close>

text \<open>
  \<open>Kernel.__init__\<close>: empty run queue, sleeping table and re-entry stack; the last task
  is the main task. The signal table and the liveness of the tasks are given.
\<close>

definition Kernel_init :: "task \<Rightarrow> (signum \<Rightarrow> string option) \<Rightarrow> (task \<Rightarrow> bool) \<Rightarrow> kernel" where
  "Kernel_init mainproc names alive =
     \<lparr>runq = [], sleeping = [], run_calls = [], last_task = mainproc, SIGQUEUE = [],
      SIGNAMES = names, proc_sleeping = (\<lambda>_. False), proc_alive = alive\<rparr>"

subsection \<open>Signals\<close>

text \<open>
  \<^verbatim>\<open>
  def signal_recv(self, sig):
      if len(self.SIGQUEUE) < 5:
          self.SIGQUEUE.append(sig)
  \<close>
\<close>

definition signal_recv :: "kernel \<Rightarrow> signum \<Rightarrow> kernel" where
  "signal_recv k sig =
     (if length (SIGQUEUE k) < 5 then k\<lparr>SIGQUEUE := SIGQUEUE k @ [sig]\<rparr> else k)"

subsection \<open>Spawning, parking and readying\<close>

text \<open>
  \<open>newproc\<close>: the new \<open>Proc\<close> object \<open>g\<close> (built by \<open>proc.Proc\<close>) is appended to the
  run queue.
\<close>

definition newproc :: "kernel \<Rightarrow> task \<Rightarrow> kernel" where
  "newproc k g = k\<lparr>runq := runq k @ [g]\<rparr>"

text \<open>
  \<open>removeg\<close> and the body of \<open>park\<close> before it enters \<open>schedule\<close>. \<open>deque.remove\<close>
  removes the first occurrence and raises \<open>ValueError\<close> when there is none; both
  callers swallow that error, which \<open>remove1\<close> does as well.
\<close>

definition removeg :: "kernel \<Rightarrow> task \<Rightarrow> task option \<Rightarrow> kernel" where
  "removeg k gcurrent gopt =
     (let g = (case gopt of Some g' \<Rightarrow> g' | None \<Rightarrow> gcurrent)
      in k\<lparr>runq := remove1 g (runq k)\<rparr>)"

definition park :: "kernel \<Rightarrow> task \<Rightarrow> task option \<Rightarrow> kernel" where
  "park k gcurrent gopt =
     (let g = (case gopt of Some g' \<Rightarrow> g' | None \<Rightarrow> gcurrent)
      in k\<lparr>proc_sleeping := (proc_sleeping k)(g := True), runq := remove1 g (runq k)\<rparr>)"

text \<open>
  \<^verbatim>\<open>
  def ready(self, g):
      if not g.sleeping:
          raise KernelError("bad goroutine status")
      g.sleeping = False
      self.runq.append(g)
  \<close>
  The result pairs the exception raised, if any, with the state the call leaves.
\<close>

definition ready :: "kernel \<Rightarrow> task \<Rightarrow> pyerror option \<times> kernel" where
  "ready k g =
     (if \<not> proc_sleeping k g then (Some (KernelError ''bad goroutine status''), k)
      else (None, k\<lparr>proc_sleeping := (proc_sleeping k)(g := False), runq := runq k @ [g]\<rparr>))"

subsection \<open>The scheduling loop\<close>

text \<open>
  One iteration of the \<open>while True\<close> loop of \<open>schedule\<close> ends in one of these ways.
  \<open>Switch g k\<close> is the call \<open>gnext.switch()\<close> made in state \<open>k\<close>: what runs next is the
  task \<open>g\<close>, not this loop.
\<close>

datatype sched_outcome =
    ProcessExit int             \<comment> \<open>\<open>os._exit(status)\<close>\<close>
  | Continue kernel             \<comment> \<open>\<open>continue\<close> after pruning a dead candidate\<close>
  | Wait kernel                 \<comment> \<open>\<open>futures.wait(...)\<close>, then \<open>continue\<close>\<close>
  | Idle kernel                 \<comment> \<open>\<open>return\<close>: nothing left to run\<close>
  | Switch task kernel          \<comment> \<open>\<open>gnext.switch()\<close>\<close>
  | Return kernel               \<comment> \<open>\<open>return\<close>: the candidate is the caller itself\<close>
  | Raise pyerror kernel        \<comment> \<open>an exception leaves the loop\<close>

datatype selection = Candidate task | WaitFutures | NoWork

definition EX_IOERR :: int where
  \<comment> \<open>\<open>os.EX_IOERR\<close>, the value of \<open>sysexits.h\<close>\<close>
  "EX_IOERR = 74"

text \<open>
  \<^verbatim>\<open>
  sig = self.SIGQUEUE.pop(0) if len(self.SIGQUEUE) else None
  if sig is not None and sig in self.SIGNAMES:
      signame = self.SIGNAMES.get(sig)
      if signame in ("quit", "int", "term",):
          os._exit(os.EX_IOERR)
  \<close>
\<close>

definition drain_signal :: "kernel \<Rightarrow> signum option \<times> kernel" where
  "drain_signal k =
     (case SIGQUEUE k of [] \<Rightarrow> (None, k) | s # q \<Rightarrow> (Some s, k\<lparr>SIGQUEUE := q\<rparr>))"

definition fatal_signal :: "kernel \<Rightarrow> signum option \<Rightarrow> bool" where
  "fatal_signal k sig =
     (case sig of None \<Rightarrow> False
      | Some s \<Rightarrow>
          (case SIGNAMES k s of None \<Rightarrow> False
           | Some signame \<Rightarrow> signame \<in> set [''quit'', ''int'', ''term'']))"

text \<open>
  \<^verbatim>\<open>
  if self.runq:
      if self.runq[0] == gcurrent:
          self.runq.rotate(-1)
      gnext = self.runq[0]
  elif len(self.sleeping) > 0:
      futures.wait(...)
      continue
  elif self._run_calls:
      gnext = self._run_calls.pop()
  else:
      return
  \<close>
  \<open>deque.rotate(-1)\<close> moves the head to the tail, which is \<open>rotate 1\<close>.
\<close>

definition select_next :: "task \<Rightarrow> kernel \<Rightarrow> kernel \<times> selection" where
  "select_next gcurrent k =
     (if runq k \<noteq> [] then
        (let k' = (if hd (runq k) = gcurrent then k\<lparr>runq := rotate 1 (runq k)\<rparr> else k)
         in (k', Candidate (hd (runq k'))))
      else if sleeping k \<noteq> [] then (k, WaitFutures)
      else if run_calls k \<noteq> [] then
        (k\<lparr>run_calls := butlast (run_calls k)\<rparr>, Candidate (last (run_calls k)))
      else (k, NoWork))"

text \<open>
  \<^verbatim>\<open>
  if not gnext.is_alive():
      self.runq.popleft()
      continue
  self._last_task = gnext
  if gnext != gcurrent:
      gnext.switch()
  if gcurrent is self._last_task:
      return
  \<close>
  \<open>deque.popleft\<close> raises \<open>IndexError\<close> on an empty deque.
\<close>

definition dispatch :: "task \<Rightarrow> task \<Rightarrow> kernel \<Rightarrow> sched_outcome" where
  "dispatch gcurrent gnext k =
     (if \<not> proc_alive k gnext then
        (case runq k of [] \<Rightarrow> Raise IndexError k | _ # q \<Rightarrow> Continue (k\<lparr>runq := q\<rparr>))
      else
        (let k' = k\<lparr>last_task := gnext\<rparr>
         in if gnext \<noteq> gcurrent then Switch gnext k' else Return k'))"

definition schedule_iter :: "task \<Rightarrow> kernel \<Rightarrow> sched_outcome" where
  "schedule_iter gcurrent k =
     (case drain_signal k of
        (sig, k1) \<Rightarrow>
          if fatal_signal k1 sig then ProcessExit EX_IOERR
          else (case select_next gcurrent k1 of
                  (k2, Candidate gnext) \<Rightarrow> dispatch gcurrent gnext k2
                | (k2, WaitFutures) \<Rightarrow> Wait k2
                | (k2, NoWork) \<Rightarrow> Idle k2))"

text \<open>The state an iteration leaves, when the process is still there, and its candidate.\<close>

fun sched_state :: "sched_outcome \<Rightarrow> kernel option" where
  "sched_state (ProcessExit _) = None"
| "sched_state (Continue k) = Some k"
| "sched_state (Wait k) = Some k"
| "sched_state (Idle k) = Some k"
| "sched_state (Switch _ k) = Some k"
| "sched_state (Return k) = Some k"
| "sched_state (Raise _ k) = Some k"

fun selected :: "sched_outcome \<Rightarrow> task option" where
  "selected (Switch g _) = Some g"
| "selected (Return k) = Some (last_task k)"
| "selected _ = None"

text \<open>
  The loop, up to the point where it leaves the caller's hands: it iterates again by
  itself only after pruning a dead candidate, which shortens the run queue.
\<close>

function schedule :: "task \<Rightarrow> kernel \<Rightarrow> sched_outcome" where
  "schedule gcurrent k =
     (case schedule_iter gcurrent k of
        Continue k' \<Rightarrow> schedule gcurrent k'
      | ProcessExit st \<Rightarrow> ProcessExit st
      | Wait k' \<Rightarrow> Wait k'
      | Idle k' \<Rightarrow> Idle k'
      | Switch g k' \<Rightarrow> Switch g k'
      | Return k' \<Rightarrow> Return k'
      | Raise e k' \<Rightarrow> Raise e k')"
  by pat_completeness auto
termination
proof (relation "measure (\<lambda>(gcurrent, k). length (runq k))")
  show "wf (measure (\<lambda>(gcurrent, k). length (runq k)))"
    by simp
next
  fix gcurrent :: task and k k' :: kernel
  assume pruned: "schedule_iter gcurrent k = Continue k'"
  have rot: "length as < length xs" if "rotate1 xs = a # as" for xs as :: "task list" and a
    using that by (metis length_Cons length_rotate1 lessI)
  from pruned have "length (runq k') < length (runq k)"
    by (auto simp: schedule_iter_def drain_signal_def select_next_def dispatch_def Let_def
        split: list.splits if_splits prod.splits selection.splits dest: rot)
  then show "((gcurrent, k'), (gcurrent, k)) \<in> measure (\<lambda>(gcurrent, k). length (runq k))"
    by simp
qed

declare schedule.simps [simp del]

text \<open>
  When \<open>gnext.switch()\<close> comes back, in state \<open>k\<close>, the loop returns if the task that
  entered it is the one dispatched last, and iterates again otherwise.
\<close>

definition after_switch :: "task \<Rightarrow> kernel \<Rightarrow> sched_outcome" where
  "after_switch gcurrent k = (if last_task k = gcurrent then Return k else schedule gcurrent k)"

text \<open>\<open>run\<close> pushes the caller on the re-entry stack before it enters \<open>schedule\<close>.\<close>

definition run :: "kernel \<Rightarrow> task \<Rightarrow> kernel" where
  "run k gcurrent = k\<lparr>run_calls := run_calls k @ [gcurrent]\<rparr>"

subsection \<open>Offloaded calls\<close>

text \<open>
  \<^verbatim>\<open>
  gt = proc.current()
  gt.sleeping = True
  f = self.tpool.submit(fn, *args, **kwargs)
  self.sleeping[f] = gt
  f.add_done_callback(self.exit_syscall)
  self.park()
  \<close>
  \<open>enter_syscall\<close> is the call up to the point where \<open>park\<close> enters \<open>schedule\<close>; \<open>f\<close> is
  the future that \<open>submit\<close> returned.
\<close>

definition enter_syscall :: "kernel \<Rightarrow> task \<Rightarrow> future \<Rightarrow> kernel" where
  "enter_syscall k gt f =
     park (k\<lparr>proc_sleeping := (proc_sleeping k)(gt := True),
             sleeping := AList.update f gt (sleeping k)\<rparr>) gt None"

text \<open>
  What a finished future holds, and the two methods of \<open>concurrent.futures.Future\<close> read
  after the task is resumed: \<open>exception()\<close> returns the exception of the call or
  \<open>None\<close>, \<open>result()\<close> returns its value or raises its exception, and both raise
  \<open>CancelledError\<close> on a cancelled future.
\<close>

datatype 'v future_done = Cancelled | Failed pyerror | Succeeded 'v

fun future_exception :: "'v future_done \<Rightarrow> pyerror + pyerror option" where
  "future_exception Cancelled = Inl CancelledError"
| "future_exception (Failed e) = Inr (Some e)"
| "future_exception (Succeeded _) = Inr None"

fun future_result :: "'v future_done \<Rightarrow> pyerror + 'v" where
  "future_result Cancelled = Inl CancelledError"
| "future_result (Failed e) = Inl e"
| "future_result (Succeeded v) = Inr v"

text \<open>
  \<^verbatim>\<open>
  if f.exception() is not None:
      raise f.exception()
  return f.result()
  \<close>
  A finished future does not change any more, so the two reads of \<open>f.exception()\<close> give
  the same exception.
\<close>

definition enter_syscall_result :: "'v future_done \<Rightarrow> pyerror + 'v" where
  "enter_syscall_result f =
     (case future_exception f of
        Inl err \<Rightarrow> Inl err
      | Inr (Some e) \<Rightarrow> Inl e
      | Inr None \<Rightarrow> future_result f)"

text \<open>
  \<^verbatim>\<open>
  g = self.sleeping.pop(f)
  if f.cancelled():
      return
  if not g.is_alive():
      return
  g.sleeping = False
  self.runq.appendleft(g)
  \<close>
  \<open>dict.pop\<close> raises \<open>KeyError\<close> for a key that is not there.
\<close>

definition exit_syscall :: "kernel \<Rightarrow> future \<Rightarrow> bool \<Rightarrow> pyerror option \<times> kernel" where
  "exit_syscall k f cancelled =
     (case map_of (sleeping k) f of
        None \<Rightarrow> (Some KeyError, k)
      | Some g \<Rightarrow>
          (let k1 = k\<lparr>sleeping := AList.delete f (sleeping k)\<rparr>
           in if cancelled then (None, k1)
              else if \<not> proc_alive k1 g then (None, k1)
              else (None, k1\<lparr>proc_sleeping := (proc_sleeping k1)(g := False),
                             runq := g # runq k1\<rparr>)))"

subsection \<open>Runs of the public operations\<close>

text \<open>
  A run is a list of calls, each taken up to the point where it hands over to the
  scheduling loop; \<open>Tick\<close> is one iteration of that loop. An iteration that ends the
  process leaves no state behind, and the run keeps the state before it; a call that
  raises leaves the state it had reached.
\<close>

datatype op =
    NewProc task
  | RemoveG task "task option"
  | Park task "task option"
  | Ready task
  | Run task
  | Tick task
  | EnterSyscall task future
  | ExitSyscall future bool
  | SignalRecv signum


fun apply_op :: "kernel \<Rightarrow> op \<Rightarrow> kernel" where
  "apply_op k (NewProc g) = newproc k g"
| "apply_op k (RemoveG gcurrent gopt) = removeg k gcurrent gopt"
| "apply_op k (Park gcurrent gopt) = park k gcurrent gopt"
| "apply_op k (Ready g) = snd (ready k g)"
| "apply_op k (Run gcurrent) = run k gcurrent"
| "apply_op k (Tick gcurrent) =
     (case sched_state (schedule_iter gcurrent k) of None \<Rightarrow> k | Some k' \<Rightarrow> k')"
| "apply_op k (EnterSyscall gt f) = enter_syscall k gt f"
| "apply_op k (ExitSyscall f cancelled) = snd (exit_syscall k f cancelled)"
| "apply_op k (SignalRecv sig) = signal_recv k sig"




subsection \<open>Worker pool size\<close>

text \<open>
  \<^verbatim>\<open>
  try:
      DEFAULT_MAX_THREADS = multiprocessing.cpu_count()
  except NotImplementedError:
      DEFAULT_MAX_THREADS = 2
  ...
  if 'OFFSET_MAX_THREADS' in os.environ:
      self._max_threads = os.environ['OFFSET_MAX_THREADS']
  else:
      self._max_threads = DEFAULT_MAX_THREADS
  self.tpool = futures.ThreadPoolExecutor(self._max_threads)
  \<close>
  \<open>cpu_count\<close> is \<open>None\<close> where \<open>multiprocessing.cpu_count()\<close> raises
  \<open>NotImplementedError\<close>. The values of \<open>os.environ\<close> are strings, so
  \<open>self._max_threads\<close> is a string or an integer. The constructor of the pool belongs to
  the standard library and is a parameter.
\<close>

datatype pyval = PyInt int | PyStr string

definition DEFAULT_MAX_THREADS :: "int option \<Rightarrow> int" where
  "DEFAULT_MAX_THREADS cpu_count = (case cpu_count of Some n \<Rightarrow> n | None \<Rightarrow> 2)"

definition max_threads :: "(string \<Rightarrow> string option) \<Rightarrow> int option \<Rightarrow> pyval" where
  "max_threads environ cpu_count =
     (case environ ''OFFSET_MAX_THREADS'' of
        Some v \<Rightarrow> PyStr v
      | None \<Rightarrow> PyInt (DEFAULT_MAX_THREADS cpu_count))"

definition tpool :: "(pyval \<Rightarrow> 'pool) \<Rightarrow> (string \<Rightarrow> string option) \<Rightarrow> int option \<Rightarrow> 'pool" where
  "tpool ThreadPoolExecutor environ cpu_count = ThreadPoolExecutor (max_threads environ cpu_count)"

section \<open>Data model of \<open>offset.net.fd_bsd\<close>\<close>

text \<open>
  The poller keeps the events of the last \<open>kqueue\<close> call in \<open>self.events\<close>. The lock of
  the poll server is a flag next to it. What the operating system answers to the
  successive calls of \<open>self.kq.control(None, 0, nsec)\<close> is a list of replies: a failure
  \<open>select.error\<close> with its error number, or the events returned.
\<close>

record kevent =
  ident :: nat
  kfilter :: int

record pollster =
  events :: "kevent list"
  locked :: bool

datatype os_reply = OSFails int | Events "kevent list"

definition KQ_FILTER_READ :: int where
  "KQ_FILTER_READ = - 1"

definition EINTR :: int where
  "EINTR = 4"

text \<open>
  The names bound at the top level of the module: \<open>from .util import fd_\<close>,
  \<open>from ..syscall import select\<close> and \<open>class Pollster\<close>. Reading any other global name
  raises \<open>NameError\<close>; the handler of \<open>waitfd\<close> reads \<open>errno.EINTR\<close>.
\<close>

definition fd_bsd_globals :: "string list" where
  "fd_bsd_globals = [''fd_'', ''select'', ''Pollster'']"

definition errno_EINTR :: "pyerror + int" where
  "errno_EINTR =
     (if ''errno'' \<in> set fd_bsd_globals then Inr EINTR else Inl (NameError ''errno''))"

text \<open>
  \<^verbatim>\<open>
  except select.error as e:
      if e.args[0] == errno.EINTR:
          continue
      raise
  \<close>
\<close>

datatype handled = Retry | Propagate pyerror

definition on_select_error :: "int \<Rightarrow> handled" where
  "on_select_error code =
     (case errno_EINTR of
        Inl err \<Rightarrow> Propagate err
      | Inr eintr \<Rightarrow> if code = eintr then Retry else Propagate (OSError code))"

text \<open>
  \<^verbatim>\<open>
  while len(self.events) == 0:
      pollserver.lock()
      try:
          events = self.kq.control(None, 0, nsec)
      except select.error as e:
          ...
      finally:
          pollserver.unlock()
      self.events.extend(events)
  ev = self.events.pop(0)
  if ev.filter == select.KQ_FILTER_READ:
      mode = 'r'
  else:
      mode = 'w'
  return (fd_(ev.ident), mode)
  \<close>
  \<open>Blocked\<close> is the call still inside the operating system when the replies end, and
  \<open>fd_of\<close> is the function \<open>fd_\<close> of \<open>offset.net.util\<close>.
\<close>

datatype 'fd waitfd_outcome =
    Returned "'fd \<times> char" pollster
  | Raised pyerror pollster
  | Blocked pollster

definition pop_event :: "(nat \<Rightarrow> 'fd) \<Rightarrow> kevent \<Rightarrow> kevent list \<Rightarrow> pollster \<Rightarrow> 'fd waitfd_outcome" where
  "pop_event fd_of ev rest p =
     Returned (fd_of (ident ev), if kfilter ev = KQ_FILTER_READ then CHR ''r'' else CHR ''w'')
       (p\<lparr>events := rest\<rparr>)"

fun waitfd :: "(nat \<Rightarrow> 'fd) \<Rightarrow> pollster \<Rightarrow> os_reply list \<Rightarrow> 'fd waitfd_outcome" where
  "waitfd fd_of p [] =
     (case events p of [] \<Rightarrow> Blocked (p\<lparr>locked := True\<rparr>) | ev # rest \<Rightarrow> pop_event fd_of ev rest p)"
| "waitfd fd_of p (reply # replies) =
     (case events p of
        ev # rest \<Rightarrow> pop_event fd_of ev rest p
      | [] \<Rightarrow>
          (let p1 = p\<lparr>locked := True\<rparr>
           in case reply of
                Events evs \<Rightarrow>
                  waitfd fd_of (p1\<lparr>locked := False, events := events p1 @ evs\<rparr>) replies
              | OSFails code \<Rightarrow>
                  (case on_select_error code of
                     Retry \<Rightarrow> waitfd fd_of (p1\<lparr>locked := False\<rparr>) replies
                   | Propagate err \<Rightarrow> Raised err (p1\<lparr>locked := False\<rparr>))))"

section \<open>Example runs\<close>

text \<open>The signal numbers of Linux, and a new kernel whose main task is task 0.\<close>

definition posix_signames :: "signum \<Rightarrow> string option" where
  "posix_signames s =
     (if s = 1 then Some ''hup'' else if s = 2 then Some ''int''
      else if s = 3 then Some ''quit'' else if s = 10 then Some ''usr1''
      else if s = 15 then Some ''term'' else None)"

definition boot :: kernel where
  "boot = Kernel_init 0 posix_signames (\<lambda>_. True)"



text \<open>
  Tasks 1 and 2 are spawned and the main task calls \<open>run\<close>, which switches into task 1.
  Task 1 offloads a call (future 7) and parks, which switches into task 2.
\<close>

definition one_sleeper_ops :: "op list" where
  "one_sleeper_ops = [NewProc 1, NewProc 2, Run 0, Tick 0, EnterSyscall 1 7, Tick 1]"

definition one_sleeper :: kernel where
  "one_sleeper = foldl apply_op boot one_sleeper_ops"

text \<open>
  Task 1 is spawned and the main task calls \<open>run\<close>, which switches into task 1. Task 1
  calls \<open>run\<close> itself, which returns at once as no other task is queued, and then the
  body of task 1 ends: the task is not alive any more.
\<close>

definition nested_run_ops :: "op list" where
  "nested_run_ops = [NewProc 1, Run 0, Tick 0, Run 1, Tick 1]"

definition nested_run_done :: kernel where
  "nested_run_done = (foldl apply_op boot nested_run_ops)\<lparr>proc_alive := (\<lambda>g. g \<noteq> 1)\<rparr>"

fun raised :: "sched_outcome \<Rightarrow> pyerror option" where
  "raised (Raise e _) = Some e"
| "raised _ = None"

section \<open>Unfolding the operations\<close>

lemmas op_defs = newproc_def run_def removeg_def park_def ready_def enter_syscall_def
  exit_syscall_def signal_recv_def schedule_iter_def drain_signal_def fatal_signal_def
  select_next_def dispatch_def Let_def

lemmas boot_defs = boot_def Kernel_init_def posix_signames_def

section \<open>Facts about one iteration of the loop\<close>

lemma drain_signal_eq:
  "drain_signal k =
     ((case SIGQUEUE k of [] \<Rightarrow> None | s # _ \<Rightarrow> Some s), k\<lparr>SIGQUEUE := tl (SIGQUEUE k)\<rparr>)"
proof (cases "SIGQUEUE k")
  case Nil
  have "k\<lparr>SIGQUEUE := SIGQUEUE k\<rparr> = k" by simp
  with Nil show ?thesis by (simp add: drain_signal_def)
next
  case (Cons s q)
  then show ?thesis by (simp add: drain_signal_def)
qed

lemma fatal_signal_SIGQUEUE: "fatal_signal (k\<lparr>SIGQUEUE := q\<rparr>) sig = fatal_signal k sig"
  by (cases sig) (simp_all add: fatal_signal_def)

lemma select_next_SIGQUEUE:
  "select_next gcurrent (k\<lparr>SIGQUEUE := q\<rparr>) =
     ((fst (select_next gcurrent k))\<lparr>SIGQUEUE := q\<rparr>, snd (select_next gcurrent k))"
  by (simp add: select_next_def Let_def)

lemma schedule_iter_eq:
  "schedule_iter gcurrent k =
     (if fatal_signal k (fst (drain_signal k)) then ProcessExit EX_IOERR
      else (case snd (select_next gcurrent k) of
              Candidate gnext \<Rightarrow>
                dispatch gcurrent gnext ((fst (select_next gcurrent k))\<lparr>SIGQUEUE := tl (SIGQUEUE k)\<rparr>)
            | WaitFutures \<Rightarrow> Wait ((fst (select_next gcurrent k))\<lparr>SIGQUEUE := tl (SIGQUEUE k)\<rparr>)
            | NoWork \<Rightarrow> Idle ((fst (select_next gcurrent k))\<lparr>SIGQUEUE := tl (SIGQUEUE k)\<rparr>)))"
  by (simp add: schedule_iter_def drain_signal_eq fatal_signal_SIGQUEUE select_next_SIGQUEUE)

lemma select_next_runq:
  "runq k \<noteq> [] \<Longrightarrow>
   select_next gcurrent k =
     (if hd (runq k) = gcurrent
      then (k\<lparr>runq := tl (runq k) @ [hd (runq k)]\<rparr>, Candidate (hd (tl (runq k) @ [hd (runq k)])))
      else (k, Candidate (hd (runq k))))"
  by (cases "runq k") (simp_all add: select_next_def)

lemma dispatch_SIGQUEUE:
  "sched_state (dispatch gcurrent gnext k) = Some k' \<Longrightarrow> SIGQUEUE k' = SIGQUEUE k"
  by (auto simp: dispatch_def Let_def split: list.splits if_splits)

lemma schedule_iter_SIGQUEUE:
  "sched_state (schedule_iter gcurrent k) = Some k' \<Longrightarrow> SIGQUEUE k' = tl (SIGQUEUE k)"
  by (cases "snd (select_next gcurrent k)")
    (auto simp: schedule_iter_eq dest: dispatch_SIGQUEUE split: if_splits)

section \<open>The signal buffer is bounded\<close>

lemma signal_recv_length:
  "length (SIGQUEUE k) \<le> 5 \<Longrightarrow> length (SIGQUEUE (signal_recv k sig)) \<le> 5"
  by (simp add: signal_recv_def)

lemma foldl_signal_recv_length:
  "length (SIGQUEUE k) \<le> 5 \<Longrightarrow> length (SIGQUEUE (foldl signal_recv k sigs)) \<le> 5"
  by (induction sigs arbitrary: k) (simp_all add: signal_recv_length)

lemma foldl_signal_recv_take:
  "SIGQUEUE (foldl signal_recv k sigs) = SIGQUEUE k @ take (5 - length (SIGQUEUE k)) sigs"
proof (induction sigs arbitrary: k)
  case Nil
  show ?case by simp
next
  case (Cons s sigs)
  show ?case
  proof (cases "length (SIGQUEUE k) < 5")
    case True
    then obtain m where m: "5 - length (SIGQUEUE k) = Suc m"
      by (cases "5 - length (SIGQUEUE k)") auto
    then have "5 - Suc (length (SIGQUEUE k)) = m" by arith
    with True m Cons.IH [of "signal_recv k s"] show ?thesis
      by (simp add: signal_recv_def)
  next
    case False
    with Cons.IH [of k] show ?thesis
      by (simp add: signal_recv_def)
  qed
qed

lemma apply_op_SIGQUEUE_bound:
  assumes "length (SIGQUEUE k) \<le> 5"
  shows "length (SIGQUEUE (apply_op k c)) \<le> 5"
proof (cases c)
  case (Tick gcurrent)
  show ?thesis
  proof (cases "sched_state (schedule_iter gcurrent k)")
    case None
    with assms Tick show ?thesis by simp
  next
    case (Some k')
    then have "SIGQUEUE k' = tl (SIGQUEUE k)" by (rule schedule_iter_SIGQUEUE)
    with assms Tick Some show ?thesis by simp
  qed
next
  case (SignalRecv sig)
  with assms show ?thesis by (simp add: signal_recv_length)
next
  case (ExitSyscall f cancelled)
  with assms show ?thesis
    by (simp add: exit_syscall_def Let_def split: option.splits)
qed (use assms in \<open>simp_all add: newproc_def removeg_def park_def ready_def run_def
  enter_syscall_def Let_def\<close>)

lemma foldl_apply_op_SIGQUEUE_bound:
  "length (SIGQUEUE k) \<le> 5 \<Longrightarrow> length (SIGQUEUE (foldl apply_op k cs)) \<le> 5"
  by (induction cs arbitrary: k) (simp_all add: apply_op_SIGQUEUE_bound)

text \<open>
  C5. Whatever signals are recorded, and in whatever state of at most five buffered
  signals the recording starts, the buffer never holds more than five entries: a signal
  is appended while fewer than five are buffered, a signal that arrives at a full buffer
  leaves the whole state as it is (the call has no error result), and from the empty
  buffer of a new kernel the buffer holds exactly the first five signals recorded. The
  bound also holds when the recordings are interleaved with any other operations.
\<close>

theorem signal_buffer_bounded:
  "(length (SIGQUEUE k) \<le> 5 \<longrightarrow> length (SIGQUEUE (foldl signal_recv k sigs)) \<le> 5)
   \<and> (length (SIGQUEUE k) < 5 \<longrightarrow> SIGQUEUE (signal_recv k sig) = SIGQUEUE k @ [sig])
   \<and> (length (SIGQUEUE k) = 5 \<longrightarrow> signal_recv k sig = k)
   \<and> SIGQUEUE (foldl signal_recv (Kernel_init m names alive) sigs) = take 5 sigs
   \<and> length (SIGQUEUE (foldl apply_op (Kernel_init m names alive) cs)) \<le> 5"
proof -
  have "SIGQUEUE (foldl signal_recv (Kernel_init m names alive) sigs) = take 5 sigs"
    by (simp add: foldl_signal_recv_take Kernel_init_def)
  moreover have "length (SIGQUEUE k) < 5 \<longrightarrow> SIGQUEUE (signal_recv k sig) = SIGQUEUE k @ [sig]"
    by (simp add: signal_recv_def)
  moreover have "length (SIGQUEUE k) = 5 \<longrightarrow> signal_recv k sig = k"
    by (simp add: signal_recv_def)
  moreover have "length (SIGQUEUE (foldl apply_op (Kernel_init m names alive) cs)) \<le> 5"
    by (rule foldl_apply_op_SIGQUEUE_bound) (simp add: Kernel_init_def)
  ultimately show ?thesis
    using foldl_signal_recv_length [of k sigs] by blast
qed

text \<open>
  Ten signals in a row on a new kernel: the first is appended, the first five are
  buffered, and at the full buffer a further signal changes nothing.
\<close>

theorem signal_buffer_bounded_witness:
  "length (SIGQUEUE boot) < 5
   \<and> SIGQUEUE (signal_recv boot 10) = [10]
   \<and> SIGQUEUE (foldl signal_recv boot [10, 12, 10, 12, 10, 12, 10, 12, 10, 12]) =
       [10, 12, 10, 12, 10]
   \<and> length (SIGQUEUE (foldl signal_recv boot [10, 12, 10, 12, 10])) = 5
   \<and> SIGQUEUE (signal_recv (foldl signal_recv boot [10, 12, 10, 12, 10]) 12) =
       [10, 12, 10, 12, 10]
   \<and> length (SIGQUEUE (foldl signal_recv (foldl signal_recv boot [10, 12, 10, 12, 10]) [12, 10]))
       \<le> 5"
  using signal_buffer_bounded [of boot "[10, 12, 10, 12, 10, 12, 10, 12, 10, 12]" 10
      0 posix_signames "\<lambda>_. True" "[]"]
    signal_buffer_bounded [of "foldl signal_recv boot [10, 12, 10, 12, 10]" "[12, 10]" 12
      0 posix_signames "\<lambda>_. True" "[]"]
  by (simp add: boot_defs signal_recv_def)

section \<open>Readying a task\<close>

text \<open>
  C4. \<open>ready g\<close> raises \<open>KernelError\<close> exactly when \<open>g.sleeping\<close> is not set. When it
  is set, the call raises nothing, clears the flag and appends \<open>g\<close> to the tail of the
  run queue, changing nothing else; when it raises, the whole state is the one before
  the call.
\<close>

theorem ready_protocol:
  "((\<exists>msg. fst (ready k g) = Some (KernelError msg)) \<longleftrightarrow> \<not> proc_sleeping k g)
   \<and> (fst (ready k g) = None \<longleftrightarrow> proc_sleeping k g)
   \<and> (proc_sleeping k g \<longrightarrow>
        snd (ready k g) = k\<lparr>proc_sleeping := (proc_sleeping k)(g := False), runq := runq k @ [g]\<rparr>
        \<and> \<not> proc_sleeping (snd (ready k g)) g
        \<and> runq (snd (ready k g)) = runq k @ [g]
        \<and> sleeping (snd (ready k g)) = sleeping k)
   \<and> (\<not> proc_sleeping k g \<longrightarrow> snd (ready k g) = k)"
  by (simp add: ready_def)

text \<open>
  In the run where task 1 has parked and task 2 runs, task 1 can be readied and task 2
  cannot.
\<close>

theorem ready_protocol_witness:
  "proc_sleeping one_sleeper 1 \<and> fst (ready one_sleeper 1) = None
   \<and> runq one_sleeper = [2] \<and> runq (snd (ready one_sleeper 1)) = [2, 1]
   \<and> \<not> proc_sleeping (snd (ready one_sleeper 1)) 1
   \<and> \<not> proc_sleeping one_sleeper 2
   \<and> fst (ready one_sleeper 2) = Some (KernelError ''bad goroutine status'')
   \<and> snd (ready one_sleeper 2) = one_sleeper"
  using ready_protocol [of one_sleeper 1] ready_protocol [of one_sleeper 2]
  by (simp add: one_sleeper_def one_sleeper_ops_def boot_defs op_defs)

section \<open>One iteration of the scheduling loop\<close>

text \<open>
  C1. In an iteration that finds the run queue not empty: if the head of the queue is
  the task that entered the loop, the head is moved to the tail, and otherwise the queue
  is left as it is; the candidate is the head of the resulting queue; and unless the
  iteration ends the process on a signal, it goes on with that candidate (pruning it, or
  dispatching it) in the state with that queue.
\<close>

theorem schedule_selects_head:
  assumes "runq k \<noteq> []"
  shows "(hd (runq k) = gcurrent \<longrightarrow>
            runq (fst (select_next gcurrent k)) = tl (runq k) @ [hd (runq k)])
       \<and> (hd (runq k) \<noteq> gcurrent \<longrightarrow> runq (fst (select_next gcurrent k)) = runq k)
       \<and> snd (select_next gcurrent k) = Candidate (hd (runq (fst (select_next gcurrent k))))
       \<and> (schedule_iter gcurrent k = ProcessExit EX_IOERR
          \<or> schedule_iter gcurrent k =
              dispatch gcurrent (hd (runq (fst (select_next gcurrent k))))
                ((fst (select_next gcurrent k))\<lparr>SIGQUEUE := tl (SIGQUEUE k)\<rparr>))"
proof -
  have sel: "snd (select_next gcurrent k) = Candidate (hd (runq (fst (select_next gcurrent k))))"
    using assms by (simp add: select_next_runq)
  then have "schedule_iter gcurrent k = ProcessExit EX_IOERR
      \<or> schedule_iter gcurrent k =
          dispatch gcurrent (hd (runq (fst (select_next gcurrent k))))
            ((fst (select_next gcurrent k))\<lparr>SIGQUEUE := tl (SIGQUEUE k)\<rparr>)"
    by (simp add: schedule_iter_eq)
  with sel assms show ?thesis
    by (simp add: select_next_runq)
qed

text \<open>
  With tasks 1 and 2 queued, the loop entered by task 1 rotates the queue and selects
  task 2, and the loop entered by the main task selects task 1.
\<close>

theorem schedule_selects_head_witness:
  "runq (newproc (newproc boot 1) 2) \<noteq> []
   \<and> hd (runq (newproc (newproc boot 1) 2)) = 1
   \<and> runq (fst (select_next 1 (newproc (newproc boot 1) 2))) = [2, 1]
   \<and> snd (select_next 1 (newproc (newproc boot 1) 2)) = Candidate 2
   \<and> selected (schedule_iter 1 (newproc (newproc boot 1) 2)) = Some 2
   \<and> runq (fst (select_next 0 (newproc (newproc boot 1) 2))) = [1, 2]
   \<and> selected (schedule_iter 0 (newproc (newproc boot 1) 2)) = Some 1"
proof -
  have h: "runq (newproc (newproc boot 1) 2) \<noteq> []"
    by (simp add: boot_defs op_defs)
  from schedule_selects_head [OF h, of 1] schedule_selects_head [OF h, of 0] show ?thesis
    by (simp add: boot_defs op_defs)
qed

section \<open>Termination signals\<close>

text \<open>
  C6. An iteration that leaves a state behind has drained the oldest buffered signal
  and no other (the buffer is its tail). An iteration that finds a signal named
  \<open>quit\<close>, \<open>int\<close> or \<open>term\<close> at the head of the buffer ends the process with status
  \<open>EX_IOERR\<close>, and so does the loop: no candidate is selected and no task is switched
  into. The process is ended with no other status and for no other reason.
\<close>

theorem fatal_signal_exits:
  "(sched_state (schedule_iter gcurrent k) = Some k' \<longrightarrow> SIGQUEUE k' = tl (SIGQUEUE k))
   \<and> (SIGQUEUE k = s # q \<and> SIGNAMES k s = Some signame
        \<and> signame \<in> {''quit'', ''int'', ''term''} \<longrightarrow>
      schedule_iter gcurrent k = ProcessExit EX_IOERR
      \<and> schedule gcurrent k = ProcessExit EX_IOERR)
   \<and> (schedule_iter gcurrent k = ProcessExit st \<longrightarrow>
        st = EX_IOERR \<and> SIGQUEUE k \<noteq> [] \<and> fatal_signal k (Some (hd (SIGQUEUE k))))
   \<and> EX_IOERR = 74"
proof -
  have exits: "schedule_iter gcurrent k = ProcessExit EX_IOERR"
    if "SIGQUEUE k = s # q" "SIGNAMES k s = Some signame" "signame \<in> {''quit'', ''int'', ''term''}"
    using that by (auto simp: schedule_iter_eq drain_signal_eq fatal_signal_def)
  have only: "st = EX_IOERR \<and> SIGQUEUE k \<noteq> [] \<and> fatal_signal k (Some (hd (SIGQUEUE k)))"
    if "schedule_iter gcurrent k = ProcessExit st"
  proof (cases "fatal_signal k (fst (drain_signal k))")
    case True
    with that have "st = EX_IOERR" by (simp add: schedule_iter_eq)
    moreover from True have "SIGQUEUE k \<noteq> [] \<and> fatal_signal k (Some (hd (SIGQUEUE k)))"
      by (cases "SIGQUEUE k") (simp_all add: drain_signal_eq fatal_signal_def)
    ultimately show ?thesis by simp
  next
    case False
    with that show ?thesis
      by (cases "snd (select_next gcurrent k)")
        (auto simp: schedule_iter_eq dispatch_def Let_def split: list.splits if_splits)
  qed
  from exits only schedule_iter_SIGQUEUE [of gcurrent k k'] show ?thesis
    by (auto simp: schedule.simps [of gcurrent k] EX_IOERR_def)
qed

text \<open>
  A kernel with task 1 queued: with \<open>SIGTERM\<close> (15) buffered first the iteration ends
  the process with status 74; with \<open>SIGUSR1\<close> (10) buffered first it drains that signal
  alone and switches into task 1.
\<close>

theorem fatal_signal_exits_witness:
  "SIGQUEUE (signal_recv (signal_recv (newproc boot 1) 15) 10) = [15, 10]
   \<and> SIGNAMES (signal_recv (signal_recv (newproc boot 1) 15) 10) 15 = Some ''term''
   \<and> ''term'' \<in> {''quit'', ''int'', ''term''}
   \<and> schedule_iter 0 (signal_recv (signal_recv (newproc boot 1) 15) 10) = ProcessExit 74
   \<and> schedule 0 (signal_recv (signal_recv (newproc boot 1) 15) 10) = ProcessExit 74
   \<and> SIGQUEUE (signal_recv (signal_recv (newproc boot 1) 10) 1) = [10, 1]
   \<and> sched_state (schedule_iter 0 (signal_recv (signal_recv (newproc boot 1) 10) 1)) =
       Some ((newproc boot 1)\<lparr>SIGQUEUE := [1], last_task := 1\<rparr>)
   \<and> selected (schedule_iter 0 (signal_recv (signal_recv (newproc boot 1) 10) 1)) = Some 1"
proof -
  let ?fatal = "signal_recv (signal_recv (newproc boot 1) 15) 10"
  let ?other = "signal_recv (signal_recv (newproc boot 1) 10) 1"
  have h: "SIGQUEUE ?fatal = [15, 10] \<and> SIGNAMES ?fatal 15 = Some ''term''
      \<and> ''term'' \<in> {''quit'', ''int'', ''term''}"
    by (simp add: boot_defs op_defs)
  have st: "sched_state (schedule_iter 0 ?other) =
      Some ((newproc boot 1)\<lparr>SIGQUEUE := [1], last_task := 1\<rparr>)"
    by (simp add: boot_defs op_defs)
  have sel: "selected (schedule_iter 0 ?other) = Some 1"
    by (simp add: boot_defs op_defs)
  have q: "SIGQUEUE ?other = [10, 1]"
    by (simp add: boot_defs op_defs)
  from fatal_signal_exits [of 0 ?fatal "newproc boot 1" 15 "[10]" "''term''" 74] h
  have ex: "schedule_iter 0 ?fatal = ProcessExit 74 \<and> schedule 0 ?fatal = ProcessExit 74"
    by (simp add: EX_IOERR_def)
  from fatal_signal_exits [of 0 ?other "(newproc boot 1)\<lparr>SIGQUEUE := [1], last_task := 1\<rparr>"
      15 "[10]" "''term''" 74] st q
  have "SIGQUEUE ((newproc boot 1)\<lparr>SIGQUEUE := [1], last_task := 1\<rparr>) = tl [10, 1]"
    by simp
  with h st sel q ex show ?thesis by simp
qed

section \<open>Results of offloaded calls\<close>

lemma enter_syscall_result_cancelled: "enter_syscall_result Cancelled = Inl CancelledError"
  by (simp add: enter_syscall_result_def)

text \<open>
  C3. When the task is resumed after the offloaded call: if the call raised \<open>e\<close> in
  the worker pool, \<open>enter_syscall\<close> raises that same \<open>e\<close>; if the call returned \<open>v\<close>,
  \<open>enter_syscall\<close> returns \<open>v\<close>.
\<close>

theorem offloaded_result:
  "enter_syscall_result (Failed e) = Inl e \<and> enter_syscall_result (Succeeded v) = Inr v"
  by (simp add: enter_syscall_result_def)

section \<open>Completion of offloaded calls\<close>




section \<open>Run queue and sleeping table\<close>





















section \<open>Pruning a dead candidate\<close>

text \<open>
  C8 fails on the code. After the run \<open>nested_run_done\<close> the dead task 1 is still on
  the re-entry stack. The loop of the main task goes on: it prunes task 1 from the run
  queue, finds the run queue and the sleeping table empty, pops task 1 from the re-entry
  stack, finds it dead and calls \<open>popleft\<close> on the empty run queue, which raises
  \<open>IndexError\<close>. The same happens in one iteration when the run queue is empty from
  the start.
\<close>

theorem prune_underflow:
  "runq nested_run_done = [1] \<and> sleeping nested_run_done = []
   \<and> run_calls nested_run_done = [0, 1] \<and> last_task nested_run_done = 1
   \<and> \<not> proc_alive nested_run_done 1
   \<and> raised (after_switch 0 nested_run_done) = Some IndexError
   \<and> raised (schedule_iter 0 (nested_run_done\<lparr>runq := []\<rparr>)) = Some IndexError"
  by (simp add: nested_run_done_def nested_run_ops_def boot_defs op_defs after_switch_def
      schedule.simps)

section \<open>Waiting for a descriptor\<close>

lemma waitfd_failure:
  "events p = [] \<Longrightarrow>
   waitfd fd_of p (OSFails code # replies) = Raised (NameError ''errno'') (p\<lparr>locked := False\<rparr>)"
  by (simp add: on_select_error_def errno_EINTR_def fd_bsd_globals_def)

lemma waitfd_releases_lock:
  "\<not> locked p \<Longrightarrow>
   waitfd fd_of p replies = Returned r p' \<or> waitfd fd_of p replies = Raised e p' \<Longrightarrow>
   \<not> locked p'"
proof (induction replies arbitrary: p)
  case Nil
  then show ?case
    by (auto simp: pop_event_def split: list.splits)
next
  case (Cons reply replies)
  show ?case
  proof (cases "events p")
    case (Cons ev rest)
    with Cons.prems show ?thesis
      by (auto simp: pop_event_def)
  next
    case Nil
    show ?thesis
    proof (cases reply)
      case (OSFails code)
      from Nil have "waitfd fd_of p (OSFails code # replies) =
          Raised (NameError ''errno'') (p\<lparr>locked := False\<rparr>)"
        by (rule waitfd_failure)
      with OSFails Cons.prems show ?thesis
        by (auto simp del: waitfd.simps)
    next
      case (Events evs)
      with Nil Cons.prems have
        "waitfd fd_of (p\<lparr>locked := False, events := evs\<rparr>) replies = Returned r p'
         \<or> waitfd fd_of (p\<lparr>locked := False, events := evs\<rparr>) replies = Raised e p'"
        by simp
      with Cons.IH [of "p\<lparr>locked := False, events := evs\<rparr>"] show ?thesis
        by simp
    qed
  qed
qed

text \<open>
  C9 fails on the code. The handler reads the name \<open>errno\<close>, which the module does not
  bind: when the first call to the operating system fails with \<open>EINTR\<close>, \<open>waitfd\<close>
  raises \<open>NameError\<close> instead of calling again and returning the event of the second
  call, and when it fails with another error (9, \<open>EBADF\<close>) it raises \<open>NameError\<close>
  instead of that error. The lock is released in both cases.
\<close>

theorem waitfd_handler_nameerror:
  "waitfd fd_of \<lparr>events = [], locked = False\<rparr>
     [OSFails EINTR, Events [\<lparr>ident = 3, kfilter = KQ_FILTER_READ\<rparr>]] =
     Raised (NameError ''errno'') \<lparr>events = [], locked = False\<rparr>
   \<and> waitfd fd_of \<lparr>events = [], locked = False\<rparr> [OSFails 9] =
     Raised (NameError ''errno'') \<lparr>events = [], locked = False\<rparr>"
  by (simp add: on_select_error_def errno_EINTR_def fd_bsd_globals_def)

section \<open>Size of the worker pool\<close>

lemma max_threads_default:
  "environ ''OFFSET_MAX_THREADS'' = None \<Longrightarrow>
   max_threads environ cpu_count = PyInt (case cpu_count of Some n \<Rightarrow> n | None \<Rightarrow> 2)"
  by (simp add: max_threads_def DEFAULT_MAX_THREADS_def)

text \<open>
  C10 fails on the code. With \<open>OFFSET_MAX_THREADS=4\<close> in the environment, the pool is
  built with the string \<open>'4'\<close>, not with the integer 4.
\<close>

theorem max_threads_is_a_string:
  "max_threads [''OFFSET_MAX_THREADS'' \<mapsto> ''4''] (Some 8) = PyStr ''4''
   \<and> max_threads [''OFFSET_MAX_THREADS'' \<mapsto> ''4''] (Some 8) \<noteq> PyInt 4
   \<and> tpool ThreadPoolExecutor [''OFFSET_MAX_THREADS'' \<mapsto> ''4''] (Some 8) =
       ThreadPoolExecutor (PyStr ''4'')"
  by (simp add: max_threads_def tpool_def)

end
